theory Spec2Isabelle
  imports Main "HOL-Library.Char_ord" "HOL-Library.AList"
begin

section \<open>Telegram plugin: agents, behaviours, storage\<close>

text \<open>
  A shallow embedding of the agent pool of the Telegram plugin
  (\<^verbatim>\<open>AgentManager.ts\<close>, \<^verbatim>\<open>BaseAgent.ts\<close>, \<^verbatim>\<open>BotAgent.ts\<close>, \<^verbatim>\<open>UserBotAgent.ts\<close>,
  \<^verbatim>\<open>AiReplyEngine.ts\<close>, \<^verbatim>\<open>TelegramStorage.ts\<close>, \<^verbatim>\<open>TelegramPlugin.ts\<close>).

  Conventions. A JavaScript string is a \<open>string\<close>. A thrown \<^verbatim>\<open>Error\<close> is an \<open>Inl\<close> of
  type \<open>error\<close>; a function that mutates returns the new state beside its result, so
  the state a raising call leaves behind stays visible. An awaited call runs in place. A
  call that is launched and not awaited runs in place up to its first suspension; what
  is left of it is a pending \<open>Task\<close>.
\<close>

subsection \<open>Errors\<close>

datatype error =
    AgentNotRunning
  | UnknownTool string
  | NotSupportedByBot string
  | AgentNotFound string
  | OnlyUserbotAuth
  | CallAuthStartFirst
  | NotConfigured
  | TypeError
  | EmptyToken
  | TransportError
  | ProviderError
  | ConstraintError

subsection \<open>Conversation history (\<^verbatim>\<open>AiReplyEngine.ts\<close>)\<close>

datatype Role = user | assistant

record HistEntry =
  role :: Role
  content :: string

text \<open>
  One block of \<^verbatim>\<open>res.content\<close>. The completion provider is an external service: it is
  a parameter, \<open>None\<close> when the request raises.
\<close>

datatype ContentBlock = TextBlock string | OtherBlock

type_synonym Provider = "string \<Rightarrow> HistEntry list \<Rightarrow> ContentBlock list option"

type_synonym Histories = "string \<rightharpoonup> HistEntry list"

text \<open>The character U+2026 of the source, one code unit.\<close>

definition ellipsis :: string where
  "ellipsis = [CHR 0x85]"

definition defaultSystemPrompt :: string where
  "defaultSystemPrompt = ''You are a helpful Telegram assistant. Be concise and friendly.''"

text \<open>\<^verbatim>\<open>if (hist.length > 20) hist.splice(0, hist.length - 20)\<close>\<close>

definition spliceOldest :: "HistEntry list \<Rightarrow> HistEntry list" where
  "spliceOldest hist = (if length hist > 20 then drop (length hist - 20) hist else hist)"

text \<open>
  \<^verbatim>\<open>hist\<close> is the array held by the map when the key is present, so \<^verbatim>\<open>push\<close> and
  \<^verbatim>\<open>splice\<close> reach the stored history before \<^verbatim>\<open>histories.set\<close>; a fresh array
  is stored only by \<^verbatim>\<open>histories.set\<close>, which a raising request skips.
\<close>

definition aiReply ::
  "Provider \<Rightarrow> string \<Rightarrow> string \<Rightarrow> string option \<Rightarrow> Histories \<Rightarrow> (error + string) \<times> Histories"
where
  "aiReply provider text chatKey systemPrompt histories =
     (let stored = histories chatKey;
          hist = spliceOldest
            ((case stored of None \<Rightarrow> [] | Some h \<Rightarrow> h) @ [\<lparr>role = user, content = text\<rparr>]);
          histories1 = (case stored of None \<Rightarrow> histories | Some _ \<Rightarrow> histories(chatKey \<mapsto> hist));
          prompt = (case systemPrompt of None \<Rightarrow> defaultSystemPrompt | Some p \<Rightarrow> p)
      in case provider prompt hist of
           None \<Rightarrow> (Inl ProviderError, histories1)
         | Some [] \<Rightarrow> (Inl TypeError, histories1)
         | Some (b # _) \<Rightarrow>
             (let reply = (case b of TextBlock t \<Rightarrow> t | OtherBlock \<Rightarrow> ellipsis)
              in (Inr reply, histories(chatKey \<mapsto> hist @ [\<lparr>role = assistant, content = reply\<rparr>]))))"

text \<open>A run of exchanges on one conversation key, each through \<open>aiReply\<close>.\<close>

fun exchanges :: "Provider \<Rightarrow> string \<Rightarrow> string list \<Rightarrow> Histories \<Rightarrow> Histories" where
  "exchanges provider chatKey [] histories = histories"
| "exchanges provider chatKey (t # ts) histories =
     exchanges provider chatKey ts (snd (aiReply provider t chatKey None histories))"

text \<open>The history handed to the provider by one call.\<close>

definition requestHistory :: "string \<Rightarrow> string \<Rightarrow> Histories \<Rightarrow> HistEntry list" where
  "requestHistory text chatKey histories =
     spliceOldest ((case histories chatKey of None \<Rightarrow> [] | Some h \<Rightarrow> h)
       @ [\<lparr>role = user, content = text\<rparr>])"

definition storedLength :: "Histories \<Rightarrow> string \<Rightarrow> nat" where
  "storedLength histories chatKey = (case histories chatKey of None \<Rightarrow> 0 | Some h \<Rightarrow> length h)"

definition echoProvider :: Provider where
  "echoProvider prompt hist = Some [TextBlock ''ok'']"

subsection \<open>Data model (\<^verbatim>\<open>types.ts\<close>)\<close>

datatype AgentStatus = stopped | starting | running | errored

text \<open>
  Credentials as they arrive from a request body: an object whose fields may be absent.
  \<^verbatim>\<open>BotCredentials\<close> is \<open>ctype = Some ''bot''\<close> with a token,
  \<^verbatim>\<open>UserbotCredentials\<close> is \<open>ctype = Some ''userbot''\<close> with a phone number.
\<close>

record Credentials =
  ctype :: "string option"
  token :: "string option"
  phoneNumber :: "string option"
  sessionString :: "string option"

datatype ReplyMode = ai | template

record Template =
  trigger :: string
  response :: string

record AutoReplyBehavior =
  ar_enabled :: bool
  replyMode :: ReplyMode
  aiSystemPrompt :: "string option"
  triggerKeywords :: "string list option"
  templates :: "Template list option"
  onlyInChats :: "string list option"
  cooldownSeconds :: "nat option"

record MonitorBehavior =
  mon_enabled :: bool
  mon_targets :: "string list"
  mon_keywords :: "string list option"
  mon_webhookUrl :: "string option"
  mon_saveToDb :: bool

record BroadcastBehavior =
  bc_enabled :: bool
  bc_targets :: "string list"
  bc_message :: string
  schedule :: "string option"
  parseMode :: "string option"
  delayBetweenMs :: "nat option"
  onlyOnce :: bool

record ParserBehavior =
  par_enabled :: bool
  par_targets :: "string list"
  parseMessages :: bool
  parseMembers :: bool
  limit :: "nat option"
  par_webhookUrl :: "string option"
  par_saveToDb :: bool

datatype BehaviorConfig =
    AutoReply AutoReplyBehavior
  | Monitor MonitorBehavior
  | Broadcast BroadcastBehavior
  | Parser ParserBehavior

record Stats =
  sent :: nat
  received :: nat
  parsed :: nat

text \<open>Times are milliseconds of the clock; \<open>ident\<close> is the field \<^verbatim>\<open>id\<close>.\<close>

record AgentRecord =
  ident :: string
  name :: string
  atype :: "string option"
  status :: AgentStatus
  credentials :: Credentials
  behaviors :: "BehaviorConfig list"
  createdAt :: nat
  updatedAt :: nat
  lastError :: "string option"
  stats :: Stats

datatype EventType = message_in | message_out | parsed_item | status_change

datatype Payload =
    StatusPayload AgentStatus "string option"
  | MessagePayload string string
  | BroadcastPayload string

record TelegramEvent =
  agentId :: string
  agentName :: string
  etype :: EventType
  payload :: Payload
  timestamp :: nat

subsection \<open>The process outside an agent\<close>

text \<open>Work that was launched and not awaited: it goes on after the launching call returns.\<close>

datatype Task =
    BroadcastRun string BroadcastBehavior
  | ParserRun string
  | Polling string
  | Reconcile string

text \<open>
  \<open>agents\<close> and \<open>tg_events\<close> are the tables of \<^verbatim>\<open>TelegramStorage\<close>; \<open>emitted\<close> are
  the events handed to the emitter; \<open>sends\<close> are the messages the transport accepted,
  as (target, text); \<open>behaviorWrites\<close> lists the calls of
  \<^verbatim>\<open>storage.updateBehaviors\<close> in order; \<open>histories\<close> and \<open>cooldowns\<close> are the two module-level maps.
  The transport is external: \<open>net\<close> scripts the outcome of its successive awaited
  calls (\<open>False\<close> raises, an exhausted script succeeds), \<open>authorized\<close> is the answer of
  \<^verbatim>\<open>isUserAuthorized\<close>, \<open>exported\<close> the string \<^verbatim>\<open>session.save()\<close> returns, and
  \<open>apiId\<close>, \<open>apiHash\<close> are the two environment variables as the code reads them.
\<close>

record Env =
  agents :: "string \<rightharpoonup> AgentRecord"
  behaviorWrites :: "(string \<times> BehaviorConfig list) list"
  tg_events :: "TelegramEvent list"
  emitted :: "TelegramEvent list"
  sends :: "(string \<times> string) list"
  pending :: "Task list"
  histories :: Histories
  cooldowns :: "string \<rightharpoonup> nat"
  clock :: nat
  net :: "bool list"
  authorized :: bool
  exported :: string
  apiId :: nat
  apiHash :: string
  provider :: Provider

text \<open>One awaited transport call: its outcome, and the script without it.\<close>

definition transportCall :: "Env \<Rightarrow> bool \<times> Env" where
  "transportCall env =
     (case net env of [] \<Rightarrow> (True, env) | ok # rest \<Rightarrow> (ok, env\<lparr>net := rest\<rparr>))"

subsection \<open>Storage (\<^verbatim>\<open>TelegramStorage.ts\<close>)\<close>

text \<open>Every \<^verbatim>\<open>UPDATE ... WHERE id=?\<close> changes the row when there is one and nothing otherwise.\<close>

text \<open>
  \<^verbatim>\<open>INSERT OR REPLACE INTO tg_agents\<close>. The columns are \<^verbatim>\<open>NOT NULL\<close> but
  \<^verbatim>\<open>last_error\<close>; of the values of a record only \<^verbatim>\<open>type\<close> can be missing, and
  then the statement raises and no row is written.
\<close>

definition withRow :: "AgentRecord \<Rightarrow> Env \<Rightarrow> Env" where
  "withRow r env = env\<lparr>agents := (agents env)(ident r \<mapsto> r)\<rparr>"

definition saveAgent :: "AgentRecord \<Rightarrow> Env \<Rightarrow> error + Env" where
  "saveAgent r env = (if atype r = None then Inl ConstraintError else Inr (withRow r env))"

definition getAgent :: "string \<Rightarrow> Env \<Rightarrow> AgentRecord option" where
  "getAgent i env = agents env i"

definition updateRow :: "string \<Rightarrow> (AgentRecord \<Rightarrow> AgentRecord) \<Rightarrow> Env \<Rightarrow> Env" where
  "updateRow i f env =
     (case agents env i of None \<Rightarrow> env | Some row \<Rightarrow> env\<lparr>agents := (agents env)(i \<mapsto> f row)\<rparr>)"

definition updateStatus :: "string \<Rightarrow> AgentStatus \<Rightarrow> string option \<Rightarrow> Env \<Rightarrow> Env" where
  "updateStatus i st err env =
     updateRow i (\<lambda>row. row\<lparr>status := st, lastError := err, updatedAt := clock env\<rparr>) env"

definition storeBehaviors :: "string \<Rightarrow> BehaviorConfig list \<Rightarrow> Env \<Rightarrow> Env" where
  "storeBehaviors i bs env =
     updateRow i (\<lambda>row. row\<lparr>behaviors := bs, updatedAt := clock env\<rparr>)
       (env\<lparr>behaviorWrites := behaviorWrites env @ [(i, bs)]\<rparr>)"

definition updateSession :: "string \<Rightarrow> string \<Rightarrow> Env \<Rightarrow> Env" where
  "updateSession i s env =
     updateRow i (\<lambda>row. row\<lparr>credentials := (credentials row)\<lparr>sessionString := Some s\<rparr>,
                            updatedAt := clock env\<rparr>) env"

datatype StatField = SentField | ReceivedField | ParsedField

definition bumpStat :: "StatField \<Rightarrow> Stats \<Rightarrow> Stats" where
  "bumpStat f st =
     (case f of SentField \<Rightarrow> st\<lparr>sent := sent st + 1\<rparr>
              | ReceivedField \<Rightarrow> st\<lparr>received := received st + 1\<rparr>
              | ParsedField \<Rightarrow> st\<lparr>parsed := parsed st + 1\<rparr>)"

definition incrementStat :: "string \<Rightarrow> StatField \<Rightarrow> Env \<Rightarrow> Env" where
  "incrementStat i f env = updateRow i (\<lambda>row. row\<lparr>stats := bumpStat f (stats row)\<rparr>) env"

definition deleteAgent :: "string \<Rightarrow> Env \<Rightarrow> Env" where
  "deleteAgent i env = env\<lparr>agents := (agents env)(i := None)\<rparr>"

definition saveEvent :: "TelegramEvent \<Rightarrow> Env \<Rightarrow> Env" where
  "saveEvent e env = env\<lparr>tg_events := tg_events env @ [e]\<rparr>"

subsection \<open>The shared part of an agent (\<^verbatim>\<open>BaseAgent.ts\<close>)\<close>

datatype Variant = BotVariant | UserBotVariant

datatype Handler =
    BaseHandlers
  | AutoReplyHandler AutoReplyBehavior
  | MonitorHandler MonitorBehavior

text \<open>
  \<open>arecord\<close> is \<^verbatim>\<open>this.record\<close>; \<^verbatim>\<open>this.creds\<close> is the very object
  \<^verbatim>\<open>this.record.credentials\<close>, so it has no field of its own. \<open>transport\<close> says that
  \<^verbatim>\<open>this.bot\<close> (\<^verbatim>\<open>this.client\<close>) is not null, \<open>handlers\<close> are the handlers
  registered on it, \<open>cronJobs\<close> the keys of the job map.
\<close>

record Agent =
  variant :: Variant
  arecord :: AgentRecord
  transport :: bool
  handlers :: "Handler list"
  cronJobs :: "string list"

definition getRecord :: "Agent \<Rightarrow> AgentRecord" where
  "getRecord a = arecord a"

definition getStatus :: "Agent \<Rightarrow> AgentStatus" where
  "getStatus a = status (arecord a)"

definition pushEvent :: "Agent \<Rightarrow> EventType \<Rightarrow> Payload \<Rightarrow> Env \<Rightarrow> Env" where
  "pushEvent a ty pl env =
     (let event = \<lparr>agentId = ident (arecord a), agentName = name (arecord a), etype = ty,
                    payload = pl, timestamp = clock env\<rparr>;
          env1 = saveEvent event env
      in env1\<lparr>emitted := emitted env1 @ [event]\<rparr>)"

definition setStatus :: "AgentStatus \<Rightarrow> string option \<Rightarrow> Agent \<times> Env \<Rightarrow> Agent \<times> Env" where
  "setStatus st err ae =
     (let a = (fst ae)\<lparr>arecord := (arecord (fst ae))\<lparr>status := st\<rparr>\<rparr>;
          env1 = updateStatus (ident (arecord a)) st err (snd ae)
      in (a, pushEvent a status_change (StatusPayload st err) env1))"

datatype Direction = Incoming | Outgoing

definition trackMessage :: "Agent \<Rightarrow> Direction \<Rightarrow> string \<Rightarrow> string \<Rightarrow> Env \<Rightarrow> Env" where
  "trackMessage a dir text chat env =
     (let env1 = incrementStat (ident (arecord a))
                   (case dir of Incoming \<Rightarrow> ReceivedField | Outgoing \<Rightarrow> SentField) env
      in pushEvent a (case dir of Incoming \<Rightarrow> message_in | Outgoing \<Rightarrow> message_out)
           (MessagePayload (take 500 text) chat) env1)"

text \<open>\<^verbatim>\<open>getBehavior(type)\<close>: the first behaviour of the list with that tag.\<close>

fun getAutoReply :: "BehaviorConfig list \<Rightarrow> AutoReplyBehavior option" where
  "getAutoReply [] = None"
| "getAutoReply (AutoReply c # bs) = Some c"
| "getAutoReply (b # bs) = getAutoReply bs"

fun getMonitor :: "BehaviorConfig list \<Rightarrow> MonitorBehavior option" where
  "getMonitor [] = None"
| "getMonitor (Monitor c # bs) = Some c"
| "getMonitor (b # bs) = getMonitor bs"

fun getBroadcast :: "BehaviorConfig list \<Rightarrow> BroadcastBehavior option" where
  "getBroadcast [] = None"
| "getBroadcast (Broadcast c # bs) = Some c"
| "getBroadcast (b # bs) = getBroadcast bs"

fun getParser :: "BehaviorConfig list \<Rightarrow> ParserBehavior option" where
  "getParser [] = None"
| "getParser (Parser c # bs) = Some c"
| "getParser (b # bs) = getParser bs"

text \<open>ASCII letters of \<^verbatim>\<open>toLowerCase\<close>; \<^verbatim>\<open>includes\<close> on strings is the search for a substring.\<close>

definition toLowerCase :: "string \<Rightarrow> string" where
  "toLowerCase s =
     map (\<lambda>c. if CHR ''A'' \<le> c \<and> c \<le> CHR ''Z'' then char_of (of_char c + (32::nat)) else c) s"

fun includesStr :: "string \<Rightarrow> string \<Rightarrow> bool" where
  "includesStr [] k = (k = [])"
| "includesStr (c # s) k = (take (length k) (c # s) = k \<or> includesStr s k)"

definition shouldAutoReply :: "AutoReplyBehavior \<Rightarrow> string \<Rightarrow> string \<Rightarrow> bool" where
  "shouldAutoReply cfg text chatId =
     (if \<not> ar_enabled cfg then False
      else if (case onlyInChats cfg of None \<Rightarrow> False
               | Some chats \<Rightarrow> chats \<noteq> [] \<and> chatId \<noteq> [] \<and> chatId \<notin> set chats) then False
      else (case triggerKeywords cfg of
              None \<Rightarrow> True
            | Some ks \<Rightarrow> if ks = [] then True
                         else list_ex (\<lambda>k. includesStr (toLowerCase text) (toLowerCase k)) ks))"

subsection \<open>Behaviours of the token variant (\<^verbatim>\<open>BotAgent.ts\<close>)\<close>

text \<open>\<^verbatim>\<open>cfg.enabled = false\<close> on the object \<^verbatim>\<open>getBehavior("broadcast")\<close> found.\<close>

fun disableBroadcast :: "BehaviorConfig list \<Rightarrow> BehaviorConfig list" where
  "disableBroadcast [] = []"
| "disableBroadcast (Broadcast c # bs) = Broadcast (c\<lparr>bc_enabled := False\<rparr>) # bs"
| "disableBroadcast (b # bs) = b # disableBroadcast bs"

text \<open>
  \<^verbatim>\<open>run()\<close> is called and not awaited, so it runs in place up to its first suspension.
  With targets that is the first send, and the pass is pending. Without targets the loop
  is over at once: an \<^verbatim>\<open>onlyOnce\<close> broadcast is disabled and \<^verbatim>\<open>updateBehaviors\<close>
  runs up to the \<^verbatim>\<open>await this.bot.stop()\<close> of \<^verbatim>\<open>onBehaviorsChanged\<close>.
\<close>

definition BotAgent_launchRun :: "BroadcastBehavior \<Rightarrow> Agent \<times> Env \<Rightarrow> Agent \<times> Env" where
  "BotAgent_launchRun cfg ae =
     (let a = fst ae; env = snd ae; i = ident (arecord a) in
      if bc_targets cfg \<noteq> [] then (a, env\<lparr>pending := pending env @ [BroadcastRun i cfg]\<rparr>)
      else if onlyOnce cfg then
        (let bs = disableBroadcast (behaviors (arecord a));
             a1 = a\<lparr>arecord := (arecord a)\<lparr>behaviors := bs\<rparr>\<rparr>;
             env1 = storeBehaviors i bs env
         in (a1, env1\<lparr>pending := pending env1 @ [Reconcile i]\<rparr>))
      else (a, env))"

text \<open>\<^verbatim>\<open>if (cfg.schedule)\<close>: a cron expression, taken as valid, that is not the empty string.\<close>

definition scheduled :: "BroadcastBehavior \<Rightarrow> bool" where
  "scheduled cfg = (case schedule cfg of None \<Rightarrow> False | Some s \<Rightarrow> s \<noteq> [])"

definition BotAgent_setupBroadcast :: "Agent \<times> Env \<Rightarrow> Agent \<times> Env" where
  "BotAgent_setupBroadcast ae =
     (case getBroadcast (behaviors (arecord (fst ae))) of
        None \<Rightarrow> ae
      | Some cfg \<Rightarrow>
          if \<not> bc_enabled cfg \<or> \<not> transport (fst ae) then ae
          else if scheduled cfg
          then ((fst ae)\<lparr>cronJobs := List.insert ''broadcast'' (cronJobs (fst ae))\<rparr>, snd ae)
          else BotAgent_launchRun cfg ae)"

definition BotAgent_setupMonitorViaUpdates :: "Agent \<times> Env \<Rightarrow> Agent \<times> Env" where
  "BotAgent_setupMonitorViaUpdates ae =
     (case getMonitor (behaviors (arecord (fst ae))) of
        None \<Rightarrow> ae
      | Some cfg \<Rightarrow>
          if \<not> mon_enabled cfg \<or> \<not> transport (fst ae) then ae
          else ((fst ae)\<lparr>handlers := handlers (fst ae) @ [MonitorHandler cfg]\<rparr>, snd ae))"

fun BotAgent_registerBehaviors :: "BehaviorConfig list \<Rightarrow> Agent \<times> Env \<Rightarrow> Agent \<times> Env" where
  "BotAgent_registerBehaviors [] ae = ae"
| "BotAgent_registerBehaviors (b # bs) ae =
     BotAgent_registerBehaviors bs
       (case b of Broadcast _ \<Rightarrow> BotAgent_setupBroadcast ae
                | Monitor _ \<Rightarrow> BotAgent_setupMonitorViaUpdates ae
                | _ \<Rightarrow> ae)"

definition setupBaseHandlers :: "Agent \<times> Env \<Rightarrow> Agent \<times> Env" where
  "setupBaseHandlers ae =
     (if \<not> transport (fst ae) then ae
      else ((fst ae)\<lparr>handlers := handlers (fst ae) @ [BaseHandlers]\<rparr>, snd ae))"

text \<open>\<^verbatim>\<open>new Bot(token)\<close>: the constructor of grammy throws on a missing or empty token.\<close>

definition newBot :: "Agent \<Rightarrow> bool" where
  "newBot a = (case token (credentials (arecord a)) of None \<Rightarrow> False | Some t \<Rightarrow> t \<noteq> [])"

type_synonym 'r Outcome = "(error + 'r) \<times> Agent \<times> Env"

text \<open>
  \<^verbatim>\<open>this.bot!.start()\<close> at the end is not awaited (polling is pending); on a null
  \<^verbatim>\<open>this.bot\<close> the call itself raises.
\<close>

definition BotAgent_onBehaviorsChanged :: "BehaviorConfig list \<Rightarrow> Agent \<times> Env \<Rightarrow> unit Outcome" where
  "BotAgent_onBehaviorsChanged bs ae =
     (let a = fst ae; env = snd ae;
          stopped_ok = (if transport a then transportCall env else (True, env));
          env1 = snd stopped_ok
      in if \<not> fst stopped_ok then (Inl TransportError, a, env1)
         else if transport a \<and> \<not> newBot a then (Inl EmptyToken, a, env1)
         else
           (let a1 = (if transport a then a\<lparr>handlers := []\<rparr> else a);
                ae2 = setupBaseHandlers
                        (BotAgent_registerBehaviors bs (a1\<lparr>cronJobs := []\<rparr>, env1));
                a2 = fst ae2; env2 = snd ae2
            in if status (arecord a2) = running
               then (if transport a2
                     then (Inr (), a2, env2\<lparr>pending := pending env2 @ [Polling (ident (arecord a2))]\<rparr>)
                     else (Inl TypeError, a2, env2))
               else (Inr (), a2, env2)))"

subsection \<open>Behaviours of the session variant (\<^verbatim>\<open>UserBotAgent.ts\<close>)\<close>

definition clearCron :: "Agent \<Rightarrow> Agent" where
  "clearCron a = a\<lparr>cronJobs := []\<rparr>"

text \<open>
  The launch of \<^verbatim>\<open>run()\<close> as for the token variant; the \<^verbatim>\<open>updateBehaviors\<close> of an
  empty \<^verbatim>\<open>onlyOnce\<close> pass reaches \<^verbatim>\<open>onBehaviorsChanged\<close>, which returns at once
  unless the agent is running, and otherwise clears the jobs before its first await.
\<close>

definition UserBotAgent_launchRun :: "BroadcastBehavior \<Rightarrow> Agent \<times> Env \<Rightarrow> Agent \<times> Env" where
  "UserBotAgent_launchRun cfg ae =
     (let a = fst ae; env = snd ae; i = ident (arecord a) in
      if bc_targets cfg \<noteq> [] then (a, env\<lparr>pending := pending env @ [BroadcastRun i cfg]\<rparr>)
      else if onlyOnce cfg then
        (let bs = disableBroadcast (behaviors (arecord a));
             a1 = a\<lparr>arecord := (arecord a)\<lparr>behaviors := bs\<rparr>\<rparr>;
             env1 = storeBehaviors i bs env
         in if status (arecord a1) \<noteq> running \<or> \<not> transport a1 then (a1, env1)
            else (clearCron a1, env1\<lparr>pending := pending env1 @ [Reconcile i]\<rparr>))
      else (a, env))"

definition UserBotAgent_setupAutoReply :: "Agent \<times> Env \<Rightarrow> Agent \<times> Env" where
  "UserBotAgent_setupAutoReply ae =
     (case getAutoReply (behaviors (arecord (fst ae))) of
        None \<Rightarrow> ae
      | Some cfg \<Rightarrow>
          if \<not> ar_enabled cfg \<or> \<not> transport (fst ae) then ae
          else ((fst ae)\<lparr>handlers := handlers (fst ae) @ [AutoReplyHandler cfg]\<rparr>, snd ae))"

definition UserBotAgent_setupMonitor :: "Agent \<times> Env \<Rightarrow> Agent \<times> Env" where
  "UserBotAgent_setupMonitor ae =
     (case getMonitor (behaviors (arecord (fst ae))) of
        None \<Rightarrow> ae
      | Some cfg \<Rightarrow>
          if \<not> mon_enabled cfg \<or> \<not> transport (fst ae) then ae
          else ((fst ae)\<lparr>handlers := handlers (fst ae) @ [MonitorHandler cfg]\<rparr>, snd ae))"

definition UserBotAgent_setupBroadcast :: "Agent \<times> Env \<Rightarrow> Agent \<times> Env" where
  "UserBotAgent_setupBroadcast ae =
     (case getBroadcast (behaviors (arecord (fst ae))) of
        None \<Rightarrow> ae
      | Some cfg \<Rightarrow>
          if \<not> bc_enabled cfg \<or> \<not> transport (fst ae) then ae
          else if scheduled cfg
          then ((fst ae)\<lparr>cronJobs := List.insert ''broadcast'' (cronJobs (fst ae))\<rparr>, snd ae)
          else UserBotAgent_launchRun cfg ae)"

text \<open>
  \<^verbatim>\<open>runParser()\<close> is launched and not awaited: it suspends at its first fetch, when
  there is one.
\<close>

definition UserBotAgent_runParser :: "Agent \<times> Env \<Rightarrow> Agent \<times> Env" where
  "UserBotAgent_runParser ae =
     (case getParser (behaviors (arecord (fst ae))) of
        None \<Rightarrow> ae
      | Some cfg \<Rightarrow>
          if \<not> par_enabled cfg \<or> \<not> transport (fst ae) then ae
          else if par_targets cfg \<noteq> [] \<and> (parseMessages cfg \<or> parseMembers cfg)
          then (fst ae, (snd ae)\<lparr>pending := pending (snd ae) @ [ParserRun (ident (arecord (fst ae)))]\<rparr>)
          else ae)"

fun UserBotAgent_registerBehaviors :: "BehaviorConfig list \<Rightarrow> Agent \<times> Env \<Rightarrow> Agent \<times> Env" where
  "UserBotAgent_registerBehaviors [] ae = ae"
| "UserBotAgent_registerBehaviors (b # bs) ae =
     UserBotAgent_registerBehaviors bs
       (case b of AutoReply _ \<Rightarrow> UserBotAgent_setupAutoReply ae
                | Monitor _ \<Rightarrow> UserBotAgent_setupMonitor ae
                | Broadcast _ \<Rightarrow> UserBotAgent_setupBroadcast ae
                | Parser _ \<Rightarrow> UserBotAgent_runParser ae)"

definition UserBotAgent_onBehaviorsChanged ::
  "BehaviorConfig list \<Rightarrow> Agent \<times> Env \<Rightarrow> unit Outcome"
where
  "UserBotAgent_onBehaviorsChanged bs ae =
     (let a = fst ae; env = snd ae in
      if status (arecord a) \<noteq> running \<or> \<not> transport a then (Inr (), a, env)
      else
        (let a1 = clearCron a;
             disconnected = transportCall env
         in if \<not> fst disconnected then (Inl TransportError, a1, snd disconnected)
            else
              (let connected = transportCall (snd disconnected)
               in if \<not> fst connected then (Inl TransportError, a1, snd connected)
                  else
                    (let ae2 = UserBotAgent_registerBehaviors bs (a1, snd connected)
                     in (Inr (), fst ae2, snd ae2)))))"

subsection \<open>Hot swap (\<^verbatim>\<open>BaseAgent.updateBehaviors\<close>)\<close>

definition onBehaviorsChanged :: "BehaviorConfig list \<Rightarrow> Agent \<times> Env \<Rightarrow> unit Outcome" where
  "onBehaviorsChanged bs ae =
     (case variant (fst ae) of
        BotVariant \<Rightarrow> BotAgent_onBehaviorsChanged bs ae
      | UserBotVariant \<Rightarrow> UserBotAgent_onBehaviorsChanged bs ae)"

definition updateBehaviors :: "BehaviorConfig list \<Rightarrow> Agent \<times> Env \<Rightarrow> unit Outcome" where
  "updateBehaviors bs ae =
     (let a1 = (fst ae)\<lparr>arecord := (arecord (fst ae))\<lparr>behaviors := bs\<rparr>\<rparr>;
          env1 = storeBehaviors (ident (arecord a1)) bs (snd ae)
      in onBehaviorsChanged bs (a1, env1))"

subsection \<open>The broadcast pass (\<^verbatim>\<open>run\<close> of \<^verbatim>\<open>setupBroadcast\<close>)\<close>







subsection \<open>Lifecycle\<close>

text \<open>\<^verbatim>\<open>String(err)\<close>, the text kept as \<^verbatim>\<open>lastError\<close>.\<close>

fun errorText :: "error \<Rightarrow> string" where
  "errorText AgentNotRunning = ''Error: Agent not running''"
| "errorText (UnknownTool t) = ''Error: Unknown tool: '' @ t"
| "errorText (NotSupportedByBot t) =
     ''Error: Bot API does not support '' @ t @ '' - use a userbot agent''"
| "errorText (AgentNotFound i) = ''Error: Agent not found: '' @ i"
| "errorText OnlyUserbotAuth = ''Error: Only userbot agents support auth''"
| "errorText CallAuthStartFirst = ''Error: Call authStart first''"
| "errorText NotConfigured = ''Error: TG_API_ID / TG_API_HASH not configured''"
| "errorText TypeError = ''TypeError''"
| "errorText EmptyToken = ''Error: Empty token!''"
| "errorText TransportError = ''Error: transport''"
| "errorText ProviderError = ''Error: provider''"
| "errorText ConstraintError = ''SqliteError: NOT NULL constraint failed''"

text \<open>
  \<^verbatim>\<open>BotAgent.start\<close>. \<^verbatim>\<open>this.bot.start({onStart})\<close> is not awaited: the call returns
  in status \<open>starting\<close>, and \<open>BotAgent_onStart\<close> is the callback that polling runs later.
\<close>

definition BotAgent_start :: "Agent \<times> Env \<Rightarrow> unit Outcome" where
  "BotAgent_start ae =
     (if status (arecord (fst ae)) = running then (Inr (), fst ae, snd ae)
      else
        (let ae1 = setStatus starting None ae in
         if \<not> newBot (fst ae1)
         then (let ae2 = setStatus errored (Some (errorText EmptyToken)) ae1
               in (Inl EmptyToken, fst ae2, snd ae2))
         else
           (let a2 = (fst ae1)\<lparr>transport := True, handlers := []\<rparr>;
                ae3 = setupBaseHandlers
                        (BotAgent_registerBehaviors (behaviors (arecord a2)) (a2, snd ae1));
                env3 = snd ae3
            in (Inr (), fst ae3,
                env3\<lparr>pending := pending env3 @ [Polling (ident (arecord (fst ae3)))]\<rparr>))))"

definition BotAgent_onStart :: "Agent \<times> Env \<Rightarrow> Agent \<times> Env" where
  "BotAgent_onStart ae = setStatus running None ae"

definition BotAgent_stop :: "Agent \<times> Env \<Rightarrow> unit Outcome" where
  "BotAgent_stop ae =
     (let a1 = (fst ae)\<lparr>cronJobs := []\<rparr>;
          stopped_ok = (if transport a1 then transportCall (snd ae) else (True, snd ae))
      in if \<not> fst stopped_ok then (Inl TransportError, a1, snd stopped_ok)
         else (let ae2 = setStatus stopped None (a1\<lparr>transport := False, handlers := []\<rparr>, snd stopped_ok)
               in (Inr (), fst ae2, snd ae2)))"

definition notAuthorizedText :: string where
  "notAuthorizedText = ''Not authorized - call telegram.agent.authStart then authSubmit''"

text \<open>The refreshed session is written to \<^verbatim>\<open>this.creds\<close>, the credentials of the record.\<close>

definition refreshSession :: "Agent \<times> Env \<Rightarrow> Agent \<times> Env" where
  "refreshSession ae =
     (let a = fst ae; env = snd ae; saved = exported env in
      if saved \<noteq> [] \<and> sessionString (credentials (arecord a)) \<noteq> Some saved
      then (a\<lparr>arecord := (arecord a)\<lparr>credentials :=
                 (credentials (arecord a))\<lparr>sessionString := Some saved\<rparr>\<rparr>\<rparr>,
            updateSession (ident (arecord a)) saved env)
      else ae)"

definition UserBotAgent_connect :: "Agent \<times> Env \<Rightarrow> unit Outcome" where
  "UserBotAgent_connect ae =
     (let env = snd ae in
      if apiId env = 0 \<or> apiHash env = [] then (Inl NotConfigured, fst ae, env)
      else
        (let a1 = (fst ae)\<lparr>transport := True, handlers := []\<rparr>;
             connected = transportCall env
         in if \<not> fst connected then (Inl TransportError, a1, snd connected)
            else
              (let asked = transportCall (snd connected)
               in if \<not> fst asked then (Inl TransportError, a1, snd asked)
                  else if \<not> authorized (snd asked)
                  then (let ae2 = setStatus errored (Some notAuthorizedText) (a1, snd asked)
                        in (Inr (), fst ae2, snd ae2))
                  else
                    (let ae3 = refreshSession (a1, snd asked);
                         ae4 = UserBotAgent_registerBehaviors (behaviors (arecord (fst ae3))) ae3;
                         ae5 = setStatus running None ae4
                     in (Inr (), fst ae5, snd ae5)))))"

text \<open>\<^verbatim>\<open>UserBotAgent.start\<close>: the body of the \<^verbatim>\<open>try\<close> is \<open>UserBotAgent_connect\<close>.\<close>

definition UserBotAgent_start :: "Agent \<times> Env \<Rightarrow> unit Outcome" where
  "UserBotAgent_start ae =
     (if status (arecord (fst ae)) = running then (Inr (), fst ae, snd ae)
      else
        (case UserBotAgent_connect (setStatus starting None ae) of
           (Inl err, a1, env1) \<Rightarrow>
             (let ae2 = setStatus errored (Some (errorText err)) (a1, env1)
              in (Inl err, fst ae2, snd ae2))
         | (Inr u, a1, env1) \<Rightarrow> (Inr u, a1, env1)))"

definition UserBotAgent_stop :: "Agent \<times> Env \<Rightarrow> unit Outcome" where
  "UserBotAgent_stop ae =
     (let a1 = clearCron (fst ae);
          gone = (if transport a1 then transportCall (snd ae) else (True, snd ae))
      in if \<not> fst gone then (Inl TransportError, a1, snd gone)
         else (let ae2 = setStatus stopped None (a1\<lparr>transport := False, handlers := []\<rparr>, snd gone)
               in (Inr (), fst ae2, snd ae2)))"

text \<open>\<^verbatim>\<open>authStart\<close> opens a client of its own, whatever the status, and asks for the code.\<close>

definition UserBotAgent_authStart :: "Agent \<times> Env \<Rightarrow> unit Outcome" where
  "UserBotAgent_authStart ae =
     (let a1 = (fst ae)\<lparr>transport := True, handlers := []\<rparr>;
          connected = transportCall (snd ae)
      in if \<not> fst connected then (Inl TransportError, a1, snd connected)
         else (let coded = transportCall (snd connected)
               in if \<not> fst coded then (Inl TransportError, a1, snd coded)
                  else (Inr (), a1, snd coded)))"

definition start :: "Agent \<times> Env \<Rightarrow> unit Outcome" where
  "start ae = (case variant (fst ae) of
                 BotVariant \<Rightarrow> BotAgent_start ae
               | UserBotVariant \<Rightarrow> UserBotAgent_start ae)"

definition stop :: "Agent \<times> Env \<Rightarrow> unit Outcome" where
  "stop ae = (case variant (fst ae) of
                BotVariant \<Rightarrow> BotAgent_stop ae
              | UserBotVariant \<Rightarrow> UserBotAgent_stop ae)"

subsection \<open>Tool calls\<close>

record ToolArgs =
  arg_target :: string
  arg_message :: string
  arg_limit :: "nat option"

datatype ToolResult =
    SentMessage string string
  | Me
  | Messages string nat
  | Members string nat
  | Joined string
  | Left string

text \<open>One awaited transport request that yields \<open>r\<close>.\<close>

definition request :: "ToolResult \<Rightarrow> Agent \<times> Env \<Rightarrow> ToolResult Outcome" where
  "request r ae =
     (let called = transportCall (snd ae)
      in if fst called then (Inr r, fst ae, snd called) else (Inl TransportError, fst ae, snd called))"

definition BotAgent_callTool :: "string \<Rightarrow> ToolArgs \<Rightarrow> Agent \<times> Env \<Rightarrow> ToolResult Outcome" where
  "BotAgent_callTool tool args ae =
     (if \<not> transport (fst ae) then (Inl AgentNotRunning, fst ae, snd ae)
      else if tool = ''sendMessage'' then
        (case request (SentMessage (arg_target args) (arg_message args)) ae of
           (Inr r, a1, env1) \<Rightarrow>
             (Inr r, a1, env1\<lparr>sends := sends env1 @ [(arg_target args, arg_message args)]\<rparr>)
         | failed \<Rightarrow> failed)
      else if tool = ''getMe'' then request Me ae
      else if tool = ''getMessages'' then (Inl (NotSupportedByBot ''getMessages''), fst ae, snd ae)
      else (Inl (UnknownTool tool), fst ae, snd ae))"

text \<open>\<^verbatim>\<open>joinChat\<close> and \<^verbatim>\<open>leaveChat\<close> resolve the entity first, then invoke the request.\<close>

definition UserBotAgent_callTool :: "string \<Rightarrow> ToolArgs \<Rightarrow> Agent \<times> Env \<Rightarrow> ToolResult Outcome" where
  "UserBotAgent_callTool tool args ae =
     (if \<not> transport (fst ae) then (Inl AgentNotRunning, fst ae, snd ae)
      else if tool = ''sendMessage'' then
        (case request (SentMessage (arg_target args) (arg_message args)) ae of
           (Inr r, a1, env1) \<Rightarrow>
             (Inr r, a1, env1\<lparr>sends := sends env1 @ [(arg_target args, arg_message args)]\<rparr>)
         | failed \<Rightarrow> failed)
      else if tool = ''getMessages'' then
        request (Messages (arg_target args) (case arg_limit args of None \<Rightarrow> 50 | Some n \<Rightarrow> n)) ae
      else if tool = ''getMembers'' then
        request (Members (arg_target args) (case arg_limit args of None \<Rightarrow> 200 | Some n \<Rightarrow> n)) ae
      else if tool = ''joinChat'' then
        (case request (Joined (arg_target args)) ae of
           (Inr r, a1, env1) \<Rightarrow> request r (a1, env1)
         | failed \<Rightarrow> failed)
      else if tool = ''leaveChat'' then
        (case request (Left (arg_target args)) ae of
           (Inr r, a1, env1) \<Rightarrow> request r (a1, env1)
         | failed \<Rightarrow> failed)
      else if tool = ''getMe'' then request Me ae
      else (Inl (UnknownTool tool), fst ae, snd ae))"

definition callTool :: "string \<Rightarrow> ToolArgs \<Rightarrow> Agent \<times> Env \<Rightarrow> ToolResult Outcome" where
  "callTool tool args ae =
     (case variant (fst ae) of
        BotVariant \<Rightarrow> BotAgent_callTool tool args ae
      | UserBotVariant \<Rightarrow> UserBotAgent_callTool tool args ae)"

subsection \<open>Automatic replies\<close>

text \<open>\<^verbatim>\<open>cfg.templates?.find(...)\<close> and \<^verbatim>\<open>tpl?.response ?? ""\<close>.\<close>

definition templateReply :: "AutoReplyBehavior \<Rightarrow> string \<Rightarrow> string" where
  "templateReply cfg text =
     (case templates cfg of
        None \<Rightarrow> []
      | Some ts \<Rightarrow>
          (case find (\<lambda>t. includesStr (toLowerCase text) (toLowerCase (trigger t))) ts of
             None \<Rightarrow> []
           | Some tpl \<Rightarrow> response tpl))"

definition chatKeyOf :: "Agent \<Rightarrow> string \<Rightarrow> string" where
  "chatKeyOf a chatId = ident (arecord a) @ '':'' @ chatId"

text \<open>The reply text of either mode; the AI mode goes through \<open>aiReply\<close> and its histories.\<close>

definition composeReply ::
  "AutoReplyBehavior \<Rightarrow> string \<Rightarrow> string \<Rightarrow> Env \<Rightarrow> (error + string) \<times> Env"
where
  "composeReply cfg text key env =
     (if replyMode cfg = ai
      then (let r = aiReply (provider env) text key (aiSystemPrompt cfg) (histories env)
            in (fst r, env\<lparr>histories := snd r\<rparr>))
      else (Inr (templateReply cfg text), env))"

text \<open>
  \<^verbatim>\<open>BotAgent.handleText\<close>, on the text and the chat id of the update. The message is
  tracked first; the configuration is read from the record at every message.
\<close>

definition BotAgent_handleText :: "string \<Rightarrow> string \<Rightarrow> Agent \<times> Env \<Rightarrow> unit Outcome" where
  "BotAgent_handleText text chatId ae =
     (let a = fst ae;
          env1 = trackMessage a Incoming text chatId (snd ae)
      in case getAutoReply (behaviors (arecord a)) of
           None \<Rightarrow> (Inr (), a, env1)
         | Some cfg \<Rightarrow>
             if \<not> ar_enabled cfg \<or> \<not> shouldAutoReply cfg text chatId then (Inr (), a, env1)
             else
               (let typing = (if replyMode cfg = ai then transportCall env1 else (True, env1))
                in if \<not> fst typing then (Inl TransportError, a, snd typing)
                   else
                     (case composeReply cfg text (chatKeyOf a chatId) (snd typing) of
                        (Inl err, env2) \<Rightarrow> (Inl err, a, env2)
                      | (Inr reply, env2) \<Rightarrow>
                          if reply = [] then (Inr (), a, env2)
                          else
                            (let replied = transportCall env2; env3 = snd replied
                             in if \<not> fst replied then (Inl TransportError, a, env3)
                                else (Inr (), a,
                                      trackMessage a Outgoing reply chatId
                                        (env3\<lparr>sends := sends env3 @ [(chatId, reply)]\<rparr>))))))"

text \<open>The message of a \<^verbatim>\<open>NewMessage\<close> event.\<close>

record NewMessage =
  out :: bool
  msg_text :: string
  msg_chatId :: string

text \<open>
  The handler \<^verbatim>\<open>setupAutoReply\<close> registers, with the configuration \<open>cfg\<close> it closed
  over. \<^verbatim>\<open>Date.now()\<close> is read on entry and again once the reply is out; \<open>elapsed\<close>
  is the time the awaits in between took.
\<close>

definition inCooldown :: "AutoReplyBehavior \<Rightarrow> string \<Rightarrow> Env \<Rightarrow> bool" where
  "inCooldown cfg key env =
     (case cooldowns env key of
        None \<Rightarrow> False
      | Some lastReply \<Rightarrow>
          int (clock env) - int lastReply
            < int ((case cooldownSeconds cfg of None \<Rightarrow> 5 | Some c \<Rightarrow> c) * 1000))"

definition UserBotAgent_onNewMessage ::
  "AutoReplyBehavior \<Rightarrow> NewMessage \<Rightarrow> nat \<Rightarrow> Agent \<times> Env \<Rightarrow> unit Outcome"
where
  "UserBotAgent_onNewMessage cfg msg elapsed ae =
     (let a = fst ae; env = snd ae;
          text = msg_text msg; chatId = msg_chatId msg; key = chatKeyOf a chatId
      in if out msg then (Inr (), a, env)
         else if inCooldown cfg key env then (Inr (), a, env)
         else if \<not> shouldAutoReply cfg text chatId then (Inr (), a, env)
         else
           (let env1 = trackMessage a Incoming text chatId env
            in case composeReply cfg text key env1 of
                 (Inl err, env2) \<Rightarrow> (Inl err, a, env2)
               | (Inr reply, env2) \<Rightarrow>
                   if reply = [] then (Inr (), a, env2)
                   else
                     (let replied = transportCall env2; env3 = snd replied
                      in if \<not> fst replied then (Inl TransportError, a, env3)
                         else
                           (let env4 = env3\<lparr>sends := sends env3 @ [(chatId, reply)],
                                            clock := clock env3 + elapsed\<rparr>;
                                env5 = env4\<lparr>cooldowns := (cooldowns env4)(key \<mapsto> clock env4)\<rparr>
                            in (Inr (), a, trackMessage a Outgoing reply chatId env5)))))"

text \<open>The replies sent into a chat so far.\<close>

definition repliesIn :: "string \<Rightarrow> Env \<Rightarrow> nat" where
  "repliesIn chatId env = length (filter (\<lambda>s. fst s = chatId) (sends env))"

subsection \<open>The pool (\<^verbatim>\<open>AgentManager.ts\<close>)\<close>

text \<open>The pool is a \<^verbatim>\<open>Map\<close>: an association list keeps its insertion order.\<close>

type_synonym Pool = "(string \<times> Agent) list"

definition spawn :: "AgentRecord \<Rightarrow> Agent" where
  "spawn r =
     \<lparr>variant = (if atype r = Some ''userbot'' then UserBotVariant else BotVariant),
      arecord = r, transport = False, handlers = [], cronJobs = []\<rparr>"

text \<open>
  \<^verbatim>\<open>create\<close>. \<open>uuid\<close> is what \<^verbatim>\<open>randomUUID()\<close> returns. The name and the
  credentials are \<open>None\<close> when the caller passed \<^verbatim>\<open>undefined\<close> or \<^verbatim>\<open>null\<close>.
  Without credentials \<^verbatim>\<open>credentials.type\<close> raises while the record is built. Nothing
  else of the credentials is looked at, but \<^verbatim>\<open>saveAgent\<close> comes before the agent is
  spawned and pooled: a record without a name or without a type is refused by the
  \<^verbatim>\<open>NOT NULL\<close> columns of the table, and nothing is stored or pooled.
\<close>

definition create ::
  "string \<Rightarrow> string option \<Rightarrow> Credentials option \<Rightarrow> BehaviorConfig list option \<Rightarrow> Pool \<times> Env
     \<Rightarrow> (error + AgentRecord) \<times> Pool \<times> Env"
where
  "create uuid nm creds bs pe =
     (case creds of
        None \<Rightarrow> (Inl TypeError, pe)
      | Some c \<Rightarrow>
          (case nm of
             None \<Rightarrow> (Inl ConstraintError, pe)
           | Some n \<Rightarrow>
               (let now = clock (snd pe);
                    record = \<lparr>ident = uuid, name = n, atype = ctype c, status = stopped,
                              credentials = c,
                              behaviors = (case bs of None \<Rightarrow> [] | Some l \<Rightarrow> l),
                              createdAt = now, updatedAt = now, lastError = None,
                              stats = \<lparr>sent = 0, received = 0, parsed = 0\<rparr>\<rparr>
                in case saveAgent record (snd pe) of
                     Inl err \<Rightarrow> (Inl err, pe)
                   | Inr env1 \<Rightarrow> (Inr record, AList.update uuid (spawn record) (fst pe), env1))))"

definition get :: "string \<Rightarrow> Pool \<times> Env \<Rightarrow> AgentRecord option" where
  "get i pe = (case map_of (fst pe) i of
                 Some a \<Rightarrow> Some (getRecord a)
               | None \<Rightarrow> getAgent i (snd pe))"

definition list_agents :: "Pool \<times> Env \<Rightarrow> AgentRecord list" where
  "list_agents pe = map (\<lambda>entry. getRecord (snd entry)) (fst pe)"

text \<open>An action on the pooled agent \<open>i\<close>, after \<^verbatim>\<open>get_or_throw\<close>; the agent is put back.\<close>

definition onAgent ::
  "string \<Rightarrow> (Agent \<times> Env \<Rightarrow> 'r Outcome) \<Rightarrow> Pool \<times> Env \<Rightarrow> (error + 'r) \<times> Pool \<times> Env"
where
  "onAgent i act pe =
     (case map_of (fst pe) i of
        None \<Rightarrow> (Inl (AgentNotFound i), pe)
      | Some a \<Rightarrow>
          (case act (a, snd pe) of
             (res, a1, env1) \<Rightarrow> (res, AList.update i a1 (fst pe), env1)))"

definition delete :: "string \<Rightarrow> Pool \<times> Env \<Rightarrow> (error + unit) \<times> Pool \<times> Env" where
  "delete i pe =
     (case map_of (fst pe) i of
        None \<Rightarrow> (Inr (), fst pe, deleteAgent i (snd pe))
      | Some a \<Rightarrow>
          (case stop (a, snd pe) of
             (Inl err, a1, env1) \<Rightarrow> (Inl err, AList.update i a1 (fst pe), env1)
           | (Inr u, a1, env1) \<Rightarrow> (Inr (), AList.delete i (fst pe), deleteAgent i env1)))"

definition manager_start :: "string \<Rightarrow> Pool \<times> Env \<Rightarrow> (error + unit) \<times> Pool \<times> Env" where
  "manager_start i pe = onAgent i start pe"

definition manager_stop :: "string \<Rightarrow> Pool \<times> Env \<Rightarrow> (error + unit) \<times> Pool \<times> Env" where
  "manager_stop i pe = onAgent i stop pe"

definition setBehaviors ::
  "string \<Rightarrow> BehaviorConfig list \<Rightarrow> Pool \<times> Env \<Rightarrow> (error + unit) \<times> Pool \<times> Env"
where
  "setBehaviors i bs pe = onAgent i (updateBehaviors bs) pe"

definition authStart :: "string \<Rightarrow> Pool \<times> Env \<Rightarrow> (error + unit) \<times> Pool \<times> Env" where
  "authStart i pe =
     onAgent i (\<lambda>ae. if variant (fst ae) = UserBotVariant then UserBotAgent_authStart ae
                      else (Inl OnlyUserbotAuth, fst ae, snd ae)) pe"

definition manager_callTool ::
  "string \<Rightarrow> string \<Rightarrow> ToolArgs \<Rightarrow> Pool \<times> Env \<Rightarrow> (error + ToolResult) \<times> Pool \<times> Env"
where
  "manager_callTool i tool args pe = onAgent i (callTool tool args) pe"

subsection \<open>What the gateway returns (\<^verbatim>\<open>TelegramPlugin.ts\<close>)\<close>

text \<open>\<^verbatim>\<open>safeRecord\<close>; \<open>None\<close> is \<^verbatim>\<open>null\<close>. A field is masked when it is truthy.\<close>

definition maskCredentials :: "Credentials \<Rightarrow> Credentials" where
  "maskCredentials c =
     (let c1 = (case token c of
                  Some t \<Rightarrow> if t \<noteq> [] then c\<lparr>token := Some (take 10 t @ ellipsis)\<rparr> else c
                | None \<Rightarrow> c)
      in case sessionString c1 of
           Some s \<Rightarrow> if s \<noteq> [] then c1\<lparr>sessionString := Some ''[saved]''\<rparr> else c1
         | None \<Rightarrow> c1)"





subsection \<open>Well-formed credentials and masked credentials\<close>

text \<open>The two shapes \<^verbatim>\<open>AgentCredentials\<close> allows in \<^verbatim>\<open>types.ts\<close>.\<close>

definition wellFormed :: "Credentials \<Rightarrow> bool" where
  "wellFormed c =
     ((ctype c = Some ''bot'' \<and> token c \<noteq> None)
      \<or> (ctype c = Some ''userbot'' \<and> phoneNumber c \<noteq> None))"



subsection \<open>Example states\<close>

definition exampleEnv :: Env where
  "exampleEnv =
     \<lparr>agents = Map.empty, behaviorWrites = [], tg_events = [], emitted = [], sends = [],
      pending = [], histories = Map.empty, cooldowns = Map.empty, clock = 1000, net = [],
      authorized = True, exported = [], apiId = 12345678, apiHash = ''abcdef'',
      provider = echoProvider\<rparr>"

definition botCredentials :: Credentials where
  "botCredentials = \<lparr>ctype = Some ''bot'', token = Some ''123456:ABC-DEF1234ghIkl'',
                      phoneNumber = None, sessionString = None\<rparr>"

definition userbotCredentials :: Credentials where
  "userbotCredentials = \<lparr>ctype = Some ''userbot'', token = None,
                          phoneNumber = Some ''+79001234567'', sessionString = Some ''1BQANOTEuMTA4''\<rparr>"

definition noArgs :: ToolArgs where
  "noArgs = \<lparr>arg_target = [], arg_message = [], arg_limit = None\<rparr>"

text \<open>A token-variant agent, created and then started: polling has not called back yet.\<close>

definition createdBot :: "Pool \<times> Env" where
  "createdBot = snd (create ''a1'' (Some ''Support Bot'') (Some botCredentials) None ([], exampleEnv))"

definition startedBot :: "Pool \<times> Env" where
  "startedBot = snd (manager_start ''a1'' createdBot)"

text \<open>Credentials of no variant of \<^verbatim>\<open>types.ts\<close>.\<close>

definition malformedCredentials :: Credentials where
  "malformedCredentials = \<lparr>ctype = Some ''carrier-pigeon'', token = None,
                            phoneNumber = None, sessionString = None\<rparr>"


subsection \<open>Observations\<close>

text \<open>The event \<^verbatim>\<open>trackMessage\<close> pushes, and the stored \<^verbatim>\<open>received\<close> counter of an agent.\<close>

definition messageEvent :: "Agent \<Rightarrow> EventType \<Rightarrow> string \<Rightarrow> string \<Rightarrow> nat \<Rightarrow> TelegramEvent" where
  "messageEvent a ty text chat now =
     \<lparr>agentId = ident (arecord a), agentName = name (arecord a), etype = ty,
      payload = MessagePayload (take 500 text) chat, timestamp = now\<rparr>"


text \<open>A running token-variant agent without behaviours, its record stored.\<close>

definition plainBot :: Agent where
  "plainBot =
     \<lparr>variant = BotVariant,
      arecord = \<lparr>ident = ''a1'', name = ''Support Bot'', atype = Some ''bot'', status = running,
                 credentials = botCredentials, behaviors = [], createdAt = 1000,
                 updatedAt = 1000, lastError = None,
                 stats = \<lparr>sent = 0, received = 0, parsed = 0\<rparr>\<rparr>,
      transport = True, handlers = [BaseHandlers], cronJobs = []\<rparr>"

definition plainEnv :: Env where
  "plainEnv = withRow (arecord plainBot) exampleEnv"

text \<open>The same agent once \<^verbatim>\<open>onStart\<close> has run.\<close>

definition runningBot :: "Agent \<times> Env" where
  "runningBot =
     (case map_of (fst startedBot) ''a1'' of
        Some a \<Rightarrow> BotAgent_onStart (a, snd startedBot)
      | None \<Rightarrow> (plainBot, snd startedBot))"

text \<open>
  The same agent with a template auto-reply and \<^verbatim>\<open>cooldownSeconds: 5\<close>.
\<close>

definition greeting :: AutoReplyBehavior where
  "greeting =
     \<lparr>ar_enabled = True, replyMode = template, aiSystemPrompt = None, triggerKeywords = None,
      templates = Some [\<lparr>trigger = ''hi'', response = ''hello!''\<rparr>], onlyInChats = None,
      cooldownSeconds = Some 5\<rparr>"

definition greeterBot :: Agent where
  "greeterBot = plainBot\<lparr>arecord := (arecord plainBot)\<lparr>behaviors := [AutoReply greeting]\<rparr>\<rparr>"

definition greeterEnv :: Env where
  "greeterEnv = withRow (arecord greeterBot) exampleEnv"

text \<open>
  A behaviour list whose broadcast runs to its end inside \<^verbatim>\<open>setupBroadcast\<close>: enabled,
  not scheduled, \<^verbatim>\<open>onlyOnce\<close>, and without targets.
\<close>

definition immediatePass :: "BehaviorConfig list \<Rightarrow> bool" where
  "immediatePass bs =
     (case getBroadcast bs of
        None \<Rightarrow> False
      | Some c \<Rightarrow> bc_enabled c \<and> \<not> scheduled c \<and> bc_targets c = [] \<and> onlyOnce c)"

text \<open>What a call leaves in the outside world: the sends, the behaviour writes, the rows.\<close>

definition footprint :: "Env \<Rightarrow> (string \<times> string) list \<times> (string \<times> BehaviorConfig list) list \<times> (string \<rightharpoonup> AgentRecord)" where
  "footprint env = (sends env, behaviorWrites env, agents env)"

text \<open>An \<^verbatim>\<open>onlyOnce\<close> broadcast without targets, and one with two targets.\<close>

definition emptyOnce :: BroadcastBehavior where
  "emptyOnce = \<lparr>bc_enabled = True, bc_targets = [], bc_message = ''hello'', schedule = None,
                 parseMode = None, delayBetweenMs = None, onlyOnce = True\<rparr>"









subsection \<open>Properties of the conversation history\<close>

lemma spliceOldest_length: "length (spliceOldest hist) \<le> 20"
  by (simp add: spliceOldest_def)

lemma spliceOldest_suffix: "\<exists>dropped. hist = dropped @ spliceOldest hist"
  by (metis append_take_drop_id append_Nil spliceOldest_def)

lemma requestHistory_bounded: "length (requestHistory text chatKey hs) \<le> 20"
  by (simp add: requestHistory_def spliceOldest_length)

lemma aiReply_stored_le_21:
  "storedLength (snd (aiReply prov text chatKey sp hs)) chatKey \<le> 21"
proof -
  have "length (spliceOldest h) \<le> 21" for h
    using spliceOldest_length [of h] by simp
  moreover have "length (spliceOldest h) + 1 \<le> 21" for h
    using spliceOldest_length [of h] by simp
  ultimately show ?thesis
    by (simp add: aiReply_def storedLength_def Let_def
             split: option.splits list.splits ContentBlock.splits)
qed

lemma exchanges_stored_le_21:
  "storedLength hs chatKey \<le> 21 \<Longrightarrow> storedLength (exchanges prov chatKey ts hs) chatKey \<le> 21"
  by (induction ts arbitrary: hs) (simp_all add: aiReply_stored_le_21)

text \<open>
  C2. Eleven exchanges on a fresh conversation key leave twenty-one entries in the stored
  history: the trim to twenty runs before the reply is appended.
\<close>

theorem aiReply_eleven_exchanges_store_21:
  "storedLength
     (exchanges echoProvider ''a1:c1''
        [''m1'', ''m2'', ''m3'', ''m4'', ''m5'', ''m6'', ''m7'', ''m8'', ''m9'', ''m10'', ''m11'']
        Map.empty) ''a1:c1'' = 21"
  by (simp add: aiReply_def storedLength_def echoProvider_def spliceOldest_def Let_def)

subsection \<open>Unfolding the model on concrete states\<close>

lemmas example_defs = exampleEnv_def botCredentials_def userbotCredentials_def noArgs_def
  createdBot_def startedBot_def runningBot_def

lemmas storage_defs = saveAgent_def withRow_def getAgent_def updateRow_def updateStatus_def
  storeBehaviors_def updateSession_def incrementStat_def bumpStat_def deleteAgent_def
  saveEvent_def

lemmas base_defs = pushEvent_def setStatus_def trackMessage_def transportCall_def

lemmas manager_defs = create_def spawn_def onAgent_def manager_start_def manager_stop_def
  setBehaviors_def manager_callTool_def get_def list_agents_def

lemma runningBot_status: "status (arecord (fst runningBot)) = running"
  by (simp add: example_defs storage_defs base_defs manager_defs start_def BotAgent_start_def
        BotAgent_onStart_def newBot_def setupBaseHandlers_def Let_def)

subsection \<open>Starting a running agent\<close>

text \<open>
  C7. \<^verbatim>\<open>start()\<close> on an agent whose status is \<open>running\<close> returns at once, for either
  variant: the agent and everything outside it (the stored record with its status and
  counters, the event log, the emitted events) are what they were.
\<close>

theorem start_on_running_is_noop:
  "status (arecord a) = running \<Longrightarrow> start (a, env) = (Inr (), a, env)"
  by (cases "variant a") (simp_all add: start_def BotAgent_start_def UserBotAgent_start_def)

theorem start_on_running_is_noop_witness:
  "status (arecord (fst runningBot)) = running
   \<and> start (fst runningBot, snd runningBot) = (Inr (), fst runningBot, snd runningBot)"
  using start_on_running_is_noop [of "fst runningBot" "snd runningBot"] runningBot_status
  by simp

subsection \<open>Tool calls\<close>

text \<open>An agent has no handle when it is spawned, and none after a stop that went through.\<close>

lemma spawn_no_transport: "\<not> transport (spawn r)"
  by (simp add: spawn_def)

lemma stop_drops_transport:
  "fst (stop (a, env)) = Inr () \<Longrightarrow> \<not> transport (fst (snd (stop (a, env))))"
  by (cases "variant a")
     (simp_all add: stop_def BotAgent_stop_def UserBotAgent_stop_def setStatus_def Let_def
        split: if_splits)

text \<open>
  C4, as the code has it. \<^verbatim>\<open>callTool\<close> looks at the transport handle, not at the status:
  without a handle every tool name fails with "Agent not running" and nothing is executed.
\<close>

theorem callTool_without_transport_fails:
  "\<not> transport a \<Longrightarrow> callTool tool args (a, env) = (Inl AgentNotRunning, a, env)"
  by (cases "variant a")
     (simp_all add: callTool_def BotAgent_callTool_def UserBotAgent_callTool_def)

theorem callTool_without_transport_fails_witness:
  "\<not> transport (spawn \<lparr>ident = ''a1'', name = ''Support Bot'', atype = Some ''bot'',
        status = stopped, credentials = botCredentials, behaviors = [], createdAt = 0,
        updatedAt = 0, lastError = None, stats = \<lparr>sent = 0, received = 0, parsed = 0\<rparr>\<rparr>)
   \<and> fst (callTool ''getMe'' noArgs
        (spawn \<lparr>ident = ''a1'', name = ''Support Bot'', atype = Some ''bot'',
           status = stopped, credentials = botCredentials, behaviors = [], createdAt = 0,
           updatedAt = 0, lastError = None, stats = \<lparr>sent = 0, received = 0, parsed = 0\<rparr>\<rparr>,
         exampleEnv)) = Inl AgentNotRunning"
  using callTool_without_transport_fails
    [of "spawn \<lparr>ident = ''a1'', name = ''Support Bot'', atype = Some ''bot'',
           status = stopped, credentials = botCredentials, behaviors = [], createdAt = 0,
           updatedAt = 0, lastError = None, stats = \<lparr>sent = 0, received = 0, parsed = 0\<rparr>\<rparr>"
        "''getMe''" noArgs exampleEnv]
  by (simp add: spawn_def)

text \<open>
  C4, as stated, fails: a token-variant agent that was just started is still in status
  \<open>starting\<close> (polling has not called back), it holds its handle, and \<^verbatim>\<open>getMe\<close> on it
  is executed.
\<close>

theorem callTool_starting_bot_executes:
  "map_option (\<lambda>a. status (arecord a)) (map_of (fst startedBot) ''a1'') = Some starting
   \<and> fst (manager_callTool ''a1'' ''getMe'' noArgs startedBot) = Inr Me"
  by (simp add: example_defs storage_defs base_defs manager_defs start_def BotAgent_start_def
        newBot_def setupBaseHandlers_def callTool_def BotAgent_callTool_def request_def Let_def)

text \<open>
  C5. On a running token-variant agent only \<^verbatim>\<open>getMessages\<close> has a case of its own; the
  tools \<^verbatim>\<open>getMembers\<close>, \<^verbatim>\<open>joinChat\<close> and \<^verbatim>\<open>leaveChat\<close> fall through to the default
  case and fail as unknown tools.
\<close>

theorem bot_session_only_tools_unknown:
  "fst (callTool ''getMembers'' noArgs runningBot) = Inl (UnknownTool ''getMembers'')
   \<and> fst (callTool ''joinChat'' noArgs runningBot) = Inl (UnknownTool ''joinChat'')
   \<and> fst (callTool ''leaveChat'' noArgs runningBot) = Inl (UnknownTool ''leaveChat'')
   \<and> fst (callTool ''getMessages'' noArgs runningBot) = Inl (NotSupportedByBot ''getMessages'')"
  by (simp add: example_defs storage_defs base_defs manager_defs start_def BotAgent_start_def
        BotAgent_onStart_def newBot_def setupBaseHandlers_def callTool_def BotAgent_callTool_def
        Let_def)

subsection \<open>Creating an agent\<close>

text \<open>
  C8, as stated, fails in its last part: credentials of no known variant are accepted,
  and a record is returned for them.
\<close>

theorem create_accepts_malformed_credentials:
  "\<not> wellFormed malformedCredentials
   \<and> \<not> isl (fst (create ''a2'' (Some ''Odd'') (Some malformedCredentials) None ([], exampleEnv)))"
  by (simp add: malformedCredentials_def wellFormed_def create_def saveAgent_def Let_def)

text \<open>
  C8, as the code has it. For every name, behaviour list and credentials object that
  carries a type tag, whatever the tag and the other fields, \<^verbatim>\<open>create\<close> returns a
  record with the generated id, status \<open>stopped\<close> and zeroed counters, stores that record
  under the id, and pools the agent spawned from it under the id. It raises, and leaves
  pool and store as they were, when it is called without a credentials object, and when
  the name or the type tag is missing and the table refuses the row.
\<close>

theorem create_builds_stopped_record:
  assumes "ctype c \<noteq> None"
  shows "\<exists>r. fst (create uuid (Some nm) (Some c) bs (pool, env)) = Inr r
       \<and> ident r = uuid \<and> status r = stopped
       \<and> stats r = \<lparr>sent = 0, received = 0, parsed = 0\<rparr>
       \<and> name r = nm \<and> credentials r = c
       \<and> agents (snd (snd (create uuid (Some nm) (Some c) bs (pool, env)))) uuid = Some r
       \<and> map_of (fst (snd (create uuid (Some nm) (Some c) bs (pool, env)))) uuid
           = Some (spawn r)
       \<and> create uuid n None bs (pool, env) = (Inl TypeError, pool, env)
       \<and> create uuid None (Some c) bs (pool, env) = (Inl ConstraintError, pool, env)
       \<and> create uuid n (Some (c\<lparr>ctype := None\<rparr>)) bs (pool, env)
           = (Inl ConstraintError, pool, env)"
  using assms
  by (cases n) (simp_all add: create_def Let_def saveAgent_def withRow_def update_conv')

theorem create_builds_stopped_record_witness:
  "ctype botCredentials \<noteq> None
   \<and> (\<exists>r. fst (create ''a1'' (Some ''Support Bot'') (Some botCredentials) None ([], exampleEnv))
            = Inr r
          \<and> ident r = ''a1'' \<and> status r = stopped
          \<and> stats r = \<lparr>sent = 0, received = 0, parsed = 0\<rparr>
          \<and> agents (snd createdBot) ''a1'' = Some r
          \<and> map_of (fst createdBot) ''a1'' = Some (spawn r))
   \<and> create ''a1'' (Some ''Support Bot'') (Some (botCredentials\<lparr>ctype := None\<rparr>)) None
        ([], exampleEnv) = (Inl ConstraintError, [], exampleEnv)"
proof -
  have tagged: "ctype botCredentials \<noteq> None"
    by (simp add: botCredentials_def)
  from create_builds_stopped_record
         [OF tagged, of "''a1''" "''Support Bot''" None "[]" exampleEnv "Some ''Support Bot''"]
       tagged
  show ?thesis
    unfolding createdBot_def by blast
qed

subsection \<open>Credentials in replies\<close>


text \<open>What is shown of a token is its first ten characters and the ellipsis.\<close>

lemma maskCredentials_token:
  "token (maskCredentials c)
     = map_option (\<lambda>t. if t = [] then [] else take 10 t @ ellipsis) (token c)"
  by (simp add: maskCredentials_def split: option.splits)

lemma maskCredentials_sessionString:
  "sessionString (maskCredentials c)
     = map_option (\<lambda>s. if s = [] then [] else ''[saved]'') (sessionString c)"
  by (simp add: maskCredentials_def split: option.splits)






subsection \<open>What the steps of a handler leave alone\<close>

lemma transportCall_keeps:
  "agents (snd (transportCall env)) = agents env"
  "emitted (snd (transportCall env)) = emitted env"
  "tg_events (snd (transportCall env)) = tg_events env"
  "sends (snd (transportCall env)) = sends env"
  "behaviorWrites (snd (transportCall env)) = behaviorWrites env"
  "clock (snd (transportCall env)) = clock env"
  by (simp_all add: transportCall_def split: list.splits)



lemma trackMessage_tg_events:
  "tg_events (trackMessage a dir text chat env)
     = tg_events env @ [messageEvent a (case dir of Incoming \<Rightarrow> message_in | Outgoing \<Rightarrow> message_out) text chat (clock env)]"
  by (simp add: trackMessage_def pushEvent_def saveEvent_def incrementStat_def updateRow_def
        messageEvent_def Let_def split: option.splits)





lemma trackMessage_ledger:
  "sends (trackMessage a dir msg chat env) = sends env"
  "behaviorWrites (trackMessage a dir msg chat env) = behaviorWrites env"
  "net (trackMessage a dir msg chat env) = net env"
  by (simp_all add: trackMessage_def pushEvent_def saveEvent_def incrementStat_def updateRow_def
        Let_def split: option.splits)


subsection \<open>Inbound text on the token variant\<close>





subsection \<open>Cooldown\<close>

lemma toLowerCase_examples:
  "toLowerCase ''hi there'' = ''hi there''" "toLowerCase ''hi again'' = ''hi again''"
  "toLowerCase ''hi'' = ''hi''"
  by (simp_all add: toLowerCase_def)

text \<open>
  C3. A token-variant agent with \<^verbatim>\<open>cooldownSeconds: 5\<close> gets two eligible messages in
  one chat at the same instant and replies to both: \<^verbatim>\<open>handleText\<close> has no cooldown.
\<close>

theorem bot_replies_twice_within_cooldown:
  "cooldownSeconds greeting = Some 5
   \<and> clock (snd (snd (BotAgent_handleText ''hi there'' ''42'' (greeterBot, greeterEnv)))) = clock greeterEnv
   \<and> repliesIn ''42''
        (snd (snd (BotAgent_handleText ''hi again'' ''42''
           (snd (BotAgent_handleText ''hi there'' ''42'' (greeterBot, greeterEnv)))))) = 2"
  by (simp add: BotAgent_handleText_def greeterBot_def greeterEnv_def plainBot_def greeting_def
        exampleEnv_def storage_defs base_defs shouldAutoReply_def composeReply_def
        templateReply_def toLowerCase_examples repliesIn_def botCredentials_def Let_def)

theorem bot_replies_twice_within_cooldown_witness:
  "ar_enabled greeting
   \<and> shouldAutoReply greeting ''hi there'' ''42''
   \<and> shouldAutoReply greeting ''hi again'' ''42''
   \<and> repliesIn ''42''
        (snd (snd (BotAgent_handleText ''hi again'' ''42''
           (snd (BotAgent_handleText ''hi there'' ''42'' (greeterBot, greeterEnv)))))) = 2"
  using bot_replies_twice_within_cooldown
  by (simp add: greeting_def shouldAutoReply_def)

text \<open>
  The session variant does have it: inside the window after a reply, a message in the
  same chat is dropped before anything is tracked or sent.
\<close>

lemma userbot_drops_inside_cooldown:
  assumes "cooldowns env (chatKeyOf a (msg_chatId msg)) = Some t"
    and "clock env < t + (case cooldownSeconds cfg of None \<Rightarrow> 5 | Some c \<Rightarrow> c) * 1000"
  shows "UserBotAgent_onNewMessage cfg msg elapsed (a, env) = (Inr (), a, env)"
  using assms by (simp add: UserBotAgent_onNewMessage_def inCooldown_def Let_def)

text \<open>Once the window is over, an eligible message with a matching template is answered.\<close>

lemma userbot_replies_after_window:
  assumes "cooldowns env (chatKeyOf a (msg_chatId msg)) = Some t"
    and "t + (case cooldownSeconds cfg of None \<Rightarrow> 5 | Some c \<Rightarrow> c) * 1000 \<le> clock env"
    and "\<not> out msg" and "shouldAutoReply cfg (msg_text msg) (msg_chatId msg)"
    and "replyMode cfg = template" and "templateReply cfg (msg_text msg) \<noteq> []"
    and "net env = []"
  shows "sends (snd (snd (UserBotAgent_onNewMessage cfg msg elapsed (a, env))))
           = sends env @ [(msg_chatId msg, templateReply cfg (msg_text msg))]"
  using assms
  by (simp add: UserBotAgent_onNewMessage_def inCooldown_def composeReply_def Let_def
        transportCall_def trackMessage_ledger)

subsection \<open>Registration that writes nothing\<close>



lemma footprint_keeps:
  "footprint (env\<lparr>pending := p\<rparr>) = footprint env"
  "footprint (snd (transportCall env)) = footprint env"
  by (simp_all add: footprint_def transportCall_keeps)

lemma bot_setupBroadcast_calm:
  "\<not> immediatePass (behaviors (arecord (fst ae))) \<Longrightarrow>
     arecord (fst (BotAgent_setupBroadcast ae)) = arecord (fst ae)
     \<and> footprint (snd (BotAgent_setupBroadcast ae)) = footprint (snd ae)"
  by (auto simp: BotAgent_setupBroadcast_def BotAgent_launchRun_def immediatePass_def
        footprint_keeps Let_def split: option.splits)

lemma user_setupBroadcast_calm:
  "\<not> immediatePass (behaviors (arecord (fst ae))) \<Longrightarrow>
     arecord (fst (UserBotAgent_setupBroadcast ae)) = arecord (fst ae)
     \<and> footprint (snd (UserBotAgent_setupBroadcast ae)) = footprint (snd ae)"
  by (auto simp: UserBotAgent_setupBroadcast_def UserBotAgent_launchRun_def immediatePass_def
        footprint_keeps Let_def split: option.splits)

lemma setup_others_keep:
  "arecord (fst (BotAgent_setupMonitorViaUpdates ae)) = arecord (fst ae)"
  "snd (BotAgent_setupMonitorViaUpdates ae) = snd ae"
  "arecord (fst (UserBotAgent_setupMonitor ae)) = arecord (fst ae)"
  "snd (UserBotAgent_setupMonitor ae) = snd ae"
  "arecord (fst (UserBotAgent_setupAutoReply ae)) = arecord (fst ae)"
  "snd (UserBotAgent_setupAutoReply ae) = snd ae"
  "arecord (fst (UserBotAgent_runParser ae)) = arecord (fst ae)"
  "footprint (snd (UserBotAgent_runParser ae)) = footprint (snd ae)"
  "arecord (fst (setupBaseHandlers ae)) = arecord (fst ae)"
  "snd (setupBaseHandlers ae) = snd ae"
  by (simp_all add: BotAgent_setupMonitorViaUpdates_def UserBotAgent_setupMonitor_def
        UserBotAgent_setupAutoReply_def UserBotAgent_runParser_def setupBaseHandlers_def
        footprint_keeps split: option.splits)

lemma bot_register_calm:
  "\<not> immediatePass (behaviors (arecord (fst ae))) \<Longrightarrow>
     arecord (fst (BotAgent_registerBehaviors bs ae)) = arecord (fst ae)
     \<and> footprint (snd (BotAgent_registerBehaviors bs ae)) = footprint (snd ae)"
proof (induction bs arbitrary: ae)
  case Nil
  then show ?case by simp
next
  case (Cons b bs)
  show ?case
  proof (cases b)
    case (Monitor m)
    have "\<not> immediatePass (behaviors (arecord (fst (BotAgent_setupMonitorViaUpdates ae))))"
      using Cons.prems by (simp add: setup_others_keep)
    from Cons.IH [OF this] show ?thesis
      using Monitor by (simp add: setup_others_keep)
  next
    case (Broadcast c)
    have "\<not> immediatePass (behaviors (arecord (fst (BotAgent_setupBroadcast ae))))"
      using Cons.prems by (simp add: bot_setupBroadcast_calm)
    from Cons.IH [OF this] show ?thesis
      using Broadcast Cons.prems by (simp add: bot_setupBroadcast_calm)
  qed (use Cons.IH [OF Cons.prems] in simp_all)
qed

lemma user_register_calm:
  "\<not> immediatePass (behaviors (arecord (fst ae))) \<Longrightarrow>
     arecord (fst (UserBotAgent_registerBehaviors bs ae)) = arecord (fst ae)
     \<and> footprint (snd (UserBotAgent_registerBehaviors bs ae)) = footprint (snd ae)"
proof (induction bs arbitrary: ae)
  case Nil
  then show ?case by simp
next
  case (Cons b bs)
  show ?case
  proof (cases b)
    case (AutoReply r)
    have "\<not> immediatePass (behaviors (arecord (fst (UserBotAgent_setupAutoReply ae))))"
      using Cons.prems by (simp add: setup_others_keep)
    from Cons.IH [OF this] show ?thesis
      using AutoReply by (simp add: setup_others_keep)
  next
    case (Monitor m)
    have "\<not> immediatePass (behaviors (arecord (fst (UserBotAgent_setupMonitor ae))))"
      using Cons.prems by (simp add: setup_others_keep)
    from Cons.IH [OF this] show ?thesis
      using Monitor by (simp add: setup_others_keep)
  next
    case (Broadcast c)
    have "\<not> immediatePass (behaviors (arecord (fst (UserBotAgent_setupBroadcast ae))))"
      using Cons.prems by (simp add: user_setupBroadcast_calm)
    from Cons.IH [OF this] show ?thesis
      using Broadcast Cons.prems by (simp add: user_setupBroadcast_calm)
  next
    case (Parser q)
    have "\<not> immediatePass (behaviors (arecord (fst (UserBotAgent_runParser ae))))"
      using Cons.prems by (simp add: setup_others_keep)
    from Cons.IH [OF this] show ?thesis
      using Parser by (simp add: setup_others_keep)
  qed
qed

lemma bot_reconcile_calm:
  "\<not> immediatePass (behaviors (arecord a)) \<Longrightarrow>
     arecord (fst (snd (BotAgent_onBehaviorsChanged bs (a, env)))) = arecord a
     \<and> footprint (snd (snd (BotAgent_onBehaviorsChanged bs (a, env)))) = footprint env"
  by (simp add: BotAgent_onBehaviorsChanged_def Let_def setup_others_keep bot_register_calm
        footprint_keeps)

lemma user_reconcile_calm:
  "\<not> immediatePass (behaviors (arecord a)) \<Longrightarrow>
     arecord (fst (snd (UserBotAgent_onBehaviorsChanged bs (a, env)))) = arecord a
     \<and> footprint (snd (snd (UserBotAgent_onBehaviorsChanged bs (a, env)))) = footprint env"
  by (simp add: UserBotAgent_onBehaviorsChanged_def Let_def clearCron_def user_register_calm
        footprint_keeps)

lemma updateBehaviors_calm:
  assumes "\<not> immediatePass bs"
  shows "behaviors (arecord (fst (snd (updateBehaviors bs (a, env))))) = bs
         \<and> footprint (snd (snd (updateBehaviors bs (a, env))))
             = footprint (storeBehaviors (ident (arecord a)) bs env)"
  using assms
  by (cases "variant a")
     (simp_all add: updateBehaviors_def onBehaviorsChanged_def Let_def bot_reconcile_calm
        user_reconcile_calm)

lemma storeBehaviors_footprint:
  "footprint (storeBehaviors i bs env)
     = (sends env, behaviorWrites env @ [(i, bs)],
        (case agents env i of None \<Rightarrow> agents env
         | Some row \<Rightarrow> (agents env)(i \<mapsto> row\<lparr>behaviors := bs, updatedAt := clock env\<rparr>)))"
  by (simp add: footprint_def storeBehaviors_def updateRow_def split: option.splits)

subsection \<open>Hot swap of the behaviour list\<close>

text \<open>\<^verbatim>\<open>setBehaviors\<close> of the manager hands the list to the pooled agent.\<close>

lemma setBehaviors_delegates:
  "map_of pool i = Some a \<Longrightarrow>
     snd (snd (setBehaviors i bs (pool, env))) = snd (snd (updateBehaviors bs (a, env)))
     \<and> fst (setBehaviors i bs (pool, env)) = fst (updateBehaviors bs (a, env))"
  by (simp add: setBehaviors_def onAgent_def case_prod_unfold)

text \<open>
  C1, as the code has it. \<^verbatim>\<open>updateBehaviors\<close> writes the submitted list to the store
  before it reconciles, and that is the one write of the call; for an agent whose record
  is in the store the persisted list is the submitted one afterwards, also when
  reconciliation raises, provided the list holds no broadcast that runs to its end
  during registration.
\<close>

theorem updateBehaviors_persists_submitted:
  assumes "agents env (ident (arecord a)) = Some row" and "\<not> immediatePass bs"
  shows "map_option behaviors (agents (snd (snd (updateBehaviors bs (a, env)))) (ident (arecord a)))
           = Some bs
         \<and> behaviorWrites (snd (snd (updateBehaviors bs (a, env))))
           = behaviorWrites env @ [(ident (arecord a), bs)]"
proof -
  have "footprint (snd (snd (updateBehaviors bs (a, env))))
          = footprint (storeBehaviors (ident (arecord a)) bs env)"
    using updateBehaviors_calm [OF assms(2)] by simp
  then show ?thesis
    using assms(1) by (simp add: storeBehaviors_footprint) (simp add: footprint_def)
qed

theorem updateBehaviors_persists_submitted_witness:
  "agents (plainEnv\<lparr>net := [False]\<rparr>) (ident (arecord plainBot)) = Some (arecord plainBot)
   \<and> \<not> immediatePass [AutoReply greeting]
   \<and> fst (updateBehaviors [AutoReply greeting] (plainBot, plainEnv\<lparr>net := [False]\<rparr>))
       = Inl TransportError
   \<and> map_option behaviors
        (agents (snd (snd (updateBehaviors [AutoReply greeting] (plainBot, plainEnv\<lparr>net := [False]\<rparr>))))
           ''a1'') = Some [AutoReply greeting]"
proof -
  have stored: "agents (plainEnv\<lparr>net := [False]\<rparr>) (ident (arecord plainBot)) = Some (arecord plainBot)"
    by (simp add: plainEnv_def withRow_def)
  have calm: "\<not> immediatePass [AutoReply greeting]"
    by (simp add: immediatePass_def)
  have raised: "fst (updateBehaviors [AutoReply greeting] (plainBot, plainEnv\<lparr>net := [False]\<rparr>))
                  = Inl TransportError"
    by (simp add: updateBehaviors_def onBehaviorsChanged_def BotAgent_onBehaviorsChanged_def
          plainBot_def plainEnv_def exampleEnv_def storage_defs transportCall_def Let_def)
  from updateBehaviors_persists_submitted [OF stored calm] stored calm raised
  show ?thesis by (simp add: plainBot_def)
qed

text \<open>
  C1, as stated, fails. The submitted list holds an enabled \<^verbatim>\<open>onlyOnce\<close> broadcast with
  no targets and no schedule; the agent holds its transport. Registration launches the
  pass, which is over at once, disables the broadcast and writes the list again: the
  store ends with the broadcast disabled.
\<close>

theorem updateBehaviors_empty_onlyOnce_stored_disabled:
  "map_option behaviors
     (agents (snd (snd (updateBehaviors [Broadcast emptyOnce] (plainBot, plainEnv)))) ''a1'')
     = Some [Broadcast (emptyOnce\<lparr>bc_enabled := False\<rparr>)]
   \<and> map_option behaviors
        (agents (snd (snd (updateBehaviors [Broadcast emptyOnce] (plainBot, plainEnv)))) ''a1'')
       \<noteq> Some [Broadcast emptyOnce]"
  by (simp add: updateBehaviors_def onBehaviorsChanged_def BotAgent_onBehaviorsChanged_def
        BotAgent_setupBroadcast_def BotAgent_launchRun_def setupBaseHandlers_def scheduled_def
        newBot_def botCredentials_def emptyOnce_def
        plainBot_def plainEnv_def exampleEnv_def storage_defs transportCall_def Let_def)

subsection \<open>A broadcast pass with a failed send\<close>

lemma pushEvent_footprint: "footprint (pushEvent a ty pl env) = footprint env"
  by (simp add: footprint_def pushEvent_def saveEvent_def Let_def)








subsection \<open>A pass that outlived its behaviour list\<close>




end
